theory Spec2Isabelle
  imports Main
begin

section \<open>The quota governor of copernicus_collector.py\<close>

text \<open>
  The development embeds the quota functions of \<^verbatim>\<open>copernicus_collector.py\<close>:
  \<^verbatim>\<open>load_quota\<close>, \<^verbatim>\<open>save_quota\<close>, \<^verbatim>\<open>check_quota\<close>, \<^verbatim>\<open>use_quota\<close> and
  \<^verbatim>\<open>get_quota_status\<close>, together with the table \<^verbatim>\<open>PU_COSTS\<close>.

  The functions share two pieces of outside state: the file \<^verbatim>\<open>quota_tracker.json\<close> and the
  wall clock read by \<^verbatim>\<open>datetime.now()\<close>. Both are fields of an explicit \<open>world\<close> that every
  function takes and returns. Each call of \<^verbatim>\<open>datetime.now()\<close> consumes one reading of the
  clock, so two reads inside one call may differ, as they may in the program.

  Python integers are unbounded and are modelled by \<open>int\<close>. Messages printed to standard
  output are not part of the model. A quota file that cannot be opened or does not hold a
  document of the shape that \<^verbatim>\<open>load_quota\<close> itself writes is outside the model: the file
  either does not exist or holds a well-formed \<open>quota\<close>.
\<close>

subsection \<open>Calendar time\<close>

text \<open>
  The fields of a Python \<^verbatim>\<open>datetime\<close>. The library keeps every value inside the ranges of
  \<open>valid_datetime\<close>; in particular a year lies between 1 and 9999.
\<close>

record datetime =
  year :: int
  month :: int
  day :: int
  hour :: int
  minute :: int
  second :: int
  microsecond :: int

datatype error = ValueError | ZeroDivisionError

definition is_leap :: "int \<Rightarrow> bool" where
  "is_leap y = (y mod 4 = 0 \<and> (y mod 100 \<noteq> 0 \<or> y mod 400 = 0))"

definition days_in_month :: "int \<Rightarrow> int \<Rightarrow> int" where
  "days_in_month y m =
     (if m = 2 then (if is_leap y then 29 else 28)
      else if m = 4 \<or> m = 6 \<or> m = 9 \<or> m = 11 then 30
      else 31)"

definition valid_datetime :: "datetime \<Rightarrow> bool" where
  "valid_datetime t =
     (1 \<le> year t \<and> year t \<le> 9999 \<and>
      1 \<le> month t \<and> month t \<le> 12 \<and>
      1 \<le> day t \<and> day t \<le> days_in_month (year t) (month t) \<and>
      0 \<le> hour t \<and> hour t < 24 \<and>
      0 \<le> minute t \<and> minute t < 60 \<and>
      0 \<le> second t \<and> second t < 60 \<and>
      0 \<le> microsecond t \<and> microsecond t < 1000000)"

text \<open>
  The constructor call \<^verbatim>\<open>datetime(y, m, d)\<close>: midnight of the given day, or
  \<^verbatim>\<open>ValueError\<close> when the day is not a date of the calendar.
\<close>

definition datetime_ymd :: "int \<Rightarrow> int \<Rightarrow> int \<Rightarrow> error + datetime" where
  "datetime_ymd y m d =
     (if 1 \<le> y \<and> y \<le> 9999 \<and> 1 \<le> m \<and> m \<le> 12 \<and> 1 \<le> d \<and> d \<le> days_in_month y m
      then Inr \<lparr>year = y, month = m, day = d, hour = 0, minute = 0, second = 0,
                microsecond = 0\<rparr>
      else Inl ValueError)"

text \<open>Days of the proleptic Gregorian calendar, counted from 1 January of year 1.\<close>

definition days_before_year :: "int \<Rightarrow> int" where
  "days_before_year y = (y - 1) * 365 + (y - 1) div 4 - (y - 1) div 100 + (y - 1) div 400"

definition days_before_month :: "int \<Rightarrow> int \<Rightarrow> int" where
  "days_before_month y m =
     [0, 31, 59, 90, 120, 151, 181, 212, 243, 273, 304, 334] ! nat (m - 1)
       + (if 2 < m \<and> is_leap y then 1 else 0)"

definition toordinal :: "datetime \<Rightarrow> int" where
  "toordinal t = days_before_year (year t) + days_before_month (year t) (month t) + day t"

definition day_microseconds :: int where
  "day_microseconds = 86400 * 1000000"

definition time_of_day :: "datetime \<Rightarrow> int" where
  "time_of_day t = ((hour t * 60 + minute t) * 60 + second t) * 1000000 + microsecond t"

definition total_microseconds :: "datetime \<Rightarrow> int" where
  "total_microseconds t = toordinal t * day_microseconds + time_of_day t"

text \<open>
  \<^verbatim>\<open>(a - b).days\<close>: a \<^verbatim>\<open>timedelta\<close> is normalised so that its seconds and microseconds
  are not negative, which makes its \<^verbatim>\<open>days\<close> the floor of the difference in days.
\<close>

definition timedelta_days :: "datetime \<Rightarrow> datetime \<Rightarrow> int" where
  "timedelta_days a b = (total_microseconds a - total_microseconds b) div day_microseconds"

subsection \<open>Formatting\<close>

definition digit :: "int \<Rightarrow> char" where
  "digit n = ''0123456789'' ! nat (n mod 10)"

definition pad2 :: "int \<Rightarrow> string" where
  "pad2 n = [digit (n div 10), digit n]"

definition pad4 :: "int \<Rightarrow> string" where
  "pad4 n = [digit (n div 1000), digit (n div 100), digit (n div 10), digit n]"

definition pad6 :: "int \<Rightarrow> string" where
  "pad6 n = [digit (n div 100000), digit (n div 10000), digit (n div 1000),
             digit (n div 100), digit (n div 10), digit n]"

text \<open>\<^verbatim>\<open>strftime('%Y-%m')\<close>, \<^verbatim>\<open>strftime('%Y-%m-%d')\<close> and \<^verbatim>\<open>isoformat()\<close>.\<close>

definition strftime_ym :: "datetime \<Rightarrow> string" where
  "strftime_ym t = pad4 (year t) @ ''-'' @ pad2 (month t)"

definition strftime_ymd :: "datetime \<Rightarrow> string" where
  "strftime_ymd t = pad4 (year t) @ ''-'' @ pad2 (month t) @ ''-'' @ pad2 (day t)"

definition isoformat :: "datetime \<Rightarrow> string" where
  "isoformat t =
     strftime_ymd t @ ''T'' @ pad2 (hour t) @ '':'' @ pad2 (minute t) @ '':'' @ pad2 (second t)
       @ (if microsecond t = 0 then [] else ''.'' @ pad6 (microsecond t))"

subsection \<open>The quota document and the world\<close>

record quota =
  monthly_limit_pu :: int
  monthly_limit_requests :: int
  current_month :: string
  processing_units_used :: int
  requests_used :: int
  last_updated :: string
  daily_budget_pu :: int
  daily_budget_requests :: int
  collections_today :: int
  last_collection_date :: "string option"

text \<open>
  \<open>quota_file\<close> is the content of \<^verbatim>\<open>QUOTA_FILE\<close>, \<open>None\<close> when the file does not exist.
  \<open>clock\<close> gives the readings that the coming calls of \<^verbatim>\<open>datetime.now()\<close> return, the
  next one at index 0.
\<close>

record world =
  quota_file :: "quota option"
  clock :: "nat \<Rightarrow> datetime"

definition now :: "world \<Rightarrow> datetime \<times> world" where
  "now w = (clock w 0, w\<lparr>clock := \<lambda>n. clock w (Suc n)\<rparr>)"

definition PU_COSTS :: "(string \<times> int) list" where
  "PU_COSTS =
     [(''map_rgb'', 50), (''map_ndvi'', 50), (''ndvi'', 30), (''ndwi'', 30), (''ndsi'', 30),
      (''zonal_stats'', 40)]"

subsection \<open>Loading and saving\<close>

text \<open>
  \<^verbatim>\<open>save_quota\<close> stamps the dictionary it is given, which is the caller's own object, and
  writes it; the stamped dictionary is returned here so that the caller goes on with it.
\<close>

definition save_quota :: "quota \<Rightarrow> world \<Rightarrow> quota \<times> world" where
  "save_quota q w =
     (let (t, w1) = now w;
          q1 = q\<lparr>last_updated := isoformat t\<rparr>
      in (q1, w1\<lparr>quota_file := Some q1\<rparr>))"

definition load_quota :: "world \<Rightarrow> quota \<times> world" where
  "load_quota w =
     (case quota_file w of
        Some q \<Rightarrow>
          (let (t, w1) = now w;
               cm = strftime_ym t
           in if current_month q \<noteq> cm
              then save_quota (q\<lparr>current_month := cm, processing_units_used := 0,
                                 requests_used := 0, collections_today := 0\<rparr>) w1
              else (q, w1))
      | None \<Rightarrow>
          (let (t1, w1) = now w;
               (t2, w2) = now w1
           in save_quota
                \<lparr>monthly_limit_pu = 10000, monthly_limit_requests = 10000,
                 current_month = strftime_ym t1, processing_units_used = 0,
                 requests_used = 0, last_updated = isoformat t2, daily_budget_pu = 300,
                 daily_budget_requests = 300, collections_today = 0,
                 last_collection_date = None\<rparr> w2))"

subsection \<open>Admission check and commit\<close>

definition remaining_pu :: "quota \<Rightarrow> int" where
  "remaining_pu q = monthly_limit_pu q - processing_units_used q"

definition remaining_req :: "quota \<Rightarrow> int" where
  "remaining_req q = monthly_limit_requests q - requests_used q"

text \<open>
  \<^verbatim>\<open>check_quota(operation_type='general', pu_cost=50)\<close>; the defaults are the caller's to
  supply here.
\<close>

definition check_quota :: "string \<Rightarrow> int \<Rightarrow> world \<Rightarrow> bool \<times> world" where
  "check_quota operation_type pu_cost w =
     (let (q, w1) = load_quota w
      in if remaining_pu q < pu_cost then (False, w1)
         else if remaining_req q < 1 then (False, w1)
         else (True, w1))"

text \<open>\<^verbatim>\<open>PU_COSTS.get(operation_type, 30)\<close> when no cost is passed.\<close>

definition resolve_cost :: "string \<Rightarrow> int option \<Rightarrow> int" where
  "resolve_cost operation_type pu_cost =
     (case pu_cost of
        Some c \<Rightarrow> c
      | None \<Rightarrow> (case map_of PU_COSTS operation_type of Some c \<Rightarrow> c | None \<Rightarrow> 30))"

definition use_quota :: "string \<Rightarrow> int option \<Rightarrow> world \<Rightarrow> world" where
  "use_quota operation_type pu_cost w =
     (let (q, w1) = load_quota w;
          c = resolve_cost operation_type pu_cost;
          q1 = q\<lparr>processing_units_used := processing_units_used q + c,
                 requests_used := requests_used q + 1\<rparr>;
          (t, w2) = now w1;
          today = strftime_ymd t;
          q2 = (if last_collection_date q1 \<noteq> Some today
                then q1\<lparr>collections_today := 1, last_collection_date := Some today\<rparr>
                else q1\<lparr>collections_today := collections_today q1 + 1\<rparr>)
      in snd (save_quota q2 w2))"

subsection \<open>Status\<close>

text \<open>
  Lines 148 to 153 of the source: the first instant of the next month, and the whole days
  from a reading of the clock to it.
\<close>

definition next_month :: "datetime \<Rightarrow> error + datetime" where
  "next_month today =
     (if month today = 12 then datetime_ymd (year today + 1) 1 1
      else datetime_ymd (year today) (month today + 1) 1)"

definition days_remaining :: "datetime \<Rightarrow> error + int" where
  "days_remaining today =
     (case next_month today of
        Inl e \<Rightarrow> Inl e
      | Inr nm \<Rightarrow> Inr (timedelta_days nm today))"

text \<open>Python's \<^verbatim>\<open>a // b\<close> on integers: the floor of the quotient, an error when \<open>b = 0\<close>.\<close>

definition floordiv :: "int \<Rightarrow> int \<Rightarrow> error + int" where
  "floordiv a b = (if b = 0 then Inl ZeroDivisionError else Inr (a div b))"

text \<open>Line 156 of the source.\<close>

definition safe_daily_pu :: "int \<Rightarrow> int \<Rightarrow> error + int" where
  "safe_daily_pu rem_pu days =
     (if days > 0 then floordiv rem_pu (max days 1) else Inr 0)"

text \<open>
  The dictionary that \<^verbatim>\<open>get_quota_status\<close> returns. Its entry \<^verbatim>\<open>percent_used\<close> is a
  floating-point number and has no field here; the division that computes it is kept as
  far as it can fail, which it does when \<^verbatim>\<open>monthly_limit_pu\<close> is 0.
\<close>

record status =
  st_pu_used :: int
  st_pu_remaining :: int
  st_pu_limit :: int
  st_requests_used :: int
  st_requests_remaining :: int
  st_days_remaining :: int
  st_safe_daily_pu :: int
  st_collections_today :: int

definition get_quota_status :: "world \<Rightarrow> (error + status) \<times> world" where
  "get_quota_status w =
     (let (q, w1) = load_quota w
      in if monthly_limit_pu q = 0 then (Inl ZeroDivisionError, w1)
         else
           (let (today, w2) = now w1
            in case days_remaining today of
                 Inl e \<Rightarrow> (Inl e, w2)
               | Inr days \<Rightarrow>
                   (case safe_daily_pu (remaining_pu q) days of
                      Inl e \<Rightarrow> (Inl e, w2)
                    | Inr sdp \<Rightarrow>
                        (Inr \<lparr>st_pu_used = processing_units_used q,
                              st_pu_remaining = remaining_pu q,
                              st_pu_limit = monthly_limit_pu q,
                              st_requests_used = requests_used q,
                              st_requests_remaining = remaining_req q,
                              st_days_remaining = days,
                              st_safe_daily_pu = sdp,
                              st_collections_today = collections_today q\<rparr>, w2))))"

subsection \<open>Example values\<close>

text \<open>Concrete clock readings, quota documents and worlds, used to evaluate the model.\<close>

definition at_time :: "int \<Rightarrow> int \<Rightarrow> int \<Rightarrow> int \<Rightarrow> datetime" where
  "at_time y m d h = \<lparr>year = y, month = m, day = d, hour = h, minute = 30, second = 0,
     microsecond = 0\<rparr>"

definition example_quota :: quota where
  "example_quota =
     \<lparr>monthly_limit_pu = 100, monthly_limit_requests = 10000, current_month = ''2025-02'',
      processing_units_used = 80, requests_used = 5,
      last_updated = ''2025-02-09T08:00:00'', daily_budget_pu = 300,
      daily_budget_requests = 300, collections_today = 2,
      last_collection_date = Some ''2025-02-09''\<rparr>"

definition fresh_quota :: quota where
  "fresh_quota =
     \<lparr>monthly_limit_pu = 10000, monthly_limit_requests = 10000, current_month = ''2025-02'',
      processing_units_used = 0, requests_used = 0,
      last_updated = ''2025-02-01T08:00:00'', daily_budget_pu = 300,
      daily_budget_requests = 300, collections_today = 0, last_collection_date = None\<rparr>"

text \<open>A world whose clock stands still at one reading.\<close>

definition world_at :: "quota option \<Rightarrow> datetime \<Rightarrow> world" where
  "world_at f t = \<lparr>quota_file = f, clock = \<lambda>n. t\<rparr>"

text \<open>A world whose first three readings are \<open>t1\<close> and whose later ones are \<open>t2\<close>.\<close>

definition world_then :: "quota option \<Rightarrow> datetime \<Rightarrow> datetime \<Rightarrow> world" where
  "world_then f t1 t2 = \<lparr>quota_file = f, clock = \<lambda>n. if n < 3 then t1 else t2\<rparr>"

section \<open>Auxiliary facts\<close>

subsection \<open>The functions, equation by equation\<close>

lemma now_simps:
  "fst (now w) = clock w 0"
  "quota_file (snd (now w)) = quota_file w"
  "clock (snd (now w)) n = clock w (Suc n)"
  by (simp_all add: now_def)

lemma save_quota_eq:
  "save_quota q w =
     (q\<lparr>last_updated := isoformat (clock w 0)\<rparr>,
      \<lparr>quota_file = Some (q\<lparr>last_updated := isoformat (clock w 0)\<rparr>),
       clock = \<lambda>n. clock w (Suc n)\<rparr>)"
  by (simp add: save_quota_def now_def Let_def)

lemma load_quota_same_month:
  assumes "quota_file w = Some q" and "current_month q = strftime_ym (clock w 0)"
  shows "load_quota w = (q, w\<lparr>clock := \<lambda>n. clock w (Suc n)\<rparr>)"
  using assms by (simp add: load_quota_def now_def Let_def)

lemma load_quota_stale:
  assumes "quota_file w = Some q" and "current_month q \<noteq> strftime_ym (clock w 0)"
  shows "load_quota w =
     (q\<lparr>current_month := strftime_ym (clock w 0), processing_units_used := 0,
        requests_used := 0, collections_today := 0,
        last_updated := isoformat (clock w 1)\<rparr>,
      \<lparr>quota_file = Some (q\<lparr>current_month := strftime_ym (clock w 0),
         processing_units_used := 0, requests_used := 0, collections_today := 0,
         last_updated := isoformat (clock w 1)\<rparr>),
       clock = \<lambda>n. clock w (Suc (Suc n))\<rparr>)"
  using assms by (simp add: load_quota_def now_def save_quota_eq Let_def)

lemma load_quota_absent:
  assumes "quota_file w = None"
  shows "load_quota w =
     (\<lparr>monthly_limit_pu = 10000, monthly_limit_requests = 10000,
       current_month = strftime_ym (clock w 0), processing_units_used = 0,
       requests_used = 0, last_updated = isoformat (clock w 2), daily_budget_pu = 300,
       daily_budget_requests = 300, collections_today = 0, last_collection_date = None\<rparr>,
      \<lparr>quota_file = Some \<lparr>monthly_limit_pu = 10000, monthly_limit_requests = 10000,
         current_month = strftime_ym (clock w 0), processing_units_used = 0,
         requests_used = 0, last_updated = isoformat (clock w 2), daily_budget_pu = 300,
         daily_budget_requests = 300, collections_today = 0, last_collection_date = None\<rparr>,
       clock = \<lambda>n. clock w (Suc (Suc (Suc n)))\<rparr>)"
  using assms by (simp add: load_quota_def now_def save_quota_eq Let_def numeral_2_eq_2)

lemma load_quota_file:
  "quota_file (snd (load_quota w)) = Some (fst (load_quota w))"
  by (auto simp: load_quota_def save_quota_def now_def Let_def split: option.splits)

lemma load_quota_current_month:
  "current_month (fst (load_quota w)) = strftime_ym (clock w 0)"
  by (auto simp: load_quota_def save_quota_def now_def Let_def split: option.splits)

lemma check_quota_eq:
  "check_quota k c w =
     (c \<le> remaining_pu (fst (load_quota w)) \<and> 1 \<le> remaining_req (fst (load_quota w)),
      snd (load_quota w))"
  by (auto simp: check_quota_def split: prod.splits)

lemma use_quota_eq:
  assumes "load_quota w = (q, w1)"
  shows "use_quota k pc w =
     \<lparr>quota_file = Some (q\<lparr>processing_units_used := processing_units_used q + resolve_cost k pc,
          requests_used := requests_used q + 1,
          collections_today :=
            (if last_collection_date q \<noteq> Some (strftime_ymd (clock w1 0)) then 1
             else collections_today q + 1),
          last_collection_date := Some (strftime_ymd (clock w1 0)),
          last_updated := isoformat (clock w1 1)\<rparr>),
       clock = \<lambda>n. clock w1 (Suc (Suc n))\<rparr>"
  using assms by (simp add: use_quota_def now_def save_quota_eq Let_def)

subsection \<open>Calendar arithmetic\<close>

lemma days_before_month_step:
  assumes "1 \<le> m" and "m \<le> 11"
  shows "days_before_month y (m + 1) = days_before_month y m + days_in_month y m"
proof -
  from assms have "m = 1 \<or> m = 2 \<or> m = 3 \<or> m = 4 \<or> m = 5 \<or> m = 6 \<or> m = 7 \<or> m = 8
      \<or> m = 9 \<or> m = 10 \<or> m = 11"
    by arith
  then show ?thesis
    by (elim disjE) (simp_all add: days_before_month_def days_in_month_def)
qed

lemma days_before_month_december:
  "days_before_month y 12 + 31 = 365 + (if is_leap y then 1 else 0)"
  by (simp add: days_before_month_def)

lemma div_step:
  fixes y n :: int
  assumes "0 < n"
  shows "y div n = (y - 1) div n + (if y mod n = 0 then 1 else 0)"
proof (cases "y mod n = 0")
  case True
  have "n * (y div n) = y"
    using True by (metis mult_div_mod_eq add.right_neutral)
  then have eq: "y - 1 = n * (y div n - 1) + (n - 1)"
    by (simp add: right_diff_distrib)
  have "(y - 1) div n = y div n - 1"
  proof (rule int_div_pos_eq [OF eq])
    show "0 \<le> n - 1" "n - 1 < n" using assms by simp_all
  qed
  with True show ?thesis by simp
next
  case False
  have pos: "0 \<le> y mod n" "y mod n < n" using assms by simp_all
  have eq: "y - 1 = n * (y div n) + (y mod n - 1)"
    using mult_div_mod_eq [of n y] by simp
  have "(y - 1) div n = y div n"
  proof (rule int_div_pos_eq [OF eq])
    show "0 \<le> y mod n - 1" using pos False by simp
    show "y mod n - 1 < n" using pos by simp
  qed
  with False show ?thesis by simp
qed

lemma leap_count:
  fixes p4 p100 p400 :: bool
  assumes "p400 \<Longrightarrow> p100" and "p100 \<Longrightarrow> p4"
  shows "(if p4 then 1 else 0) - (if p100 then 1 else 0) + (if p400 then 1 else 0)
         = (if p4 \<and> (\<not> p100 \<or> p400) then 1 else (0::int))"
  using assms by (cases p4; cases p100; cases p400; simp)

lemma mod_chain:
  fixes y :: int
  shows "y mod 400 = 0 \<Longrightarrow> y mod 100 = 0" and "y mod 100 = 0 \<Longrightarrow> y mod 4 = 0"
proof -
  have a: "(100::int) dvd 400" and b: "(4::int) dvd 100" by simp_all
  show "y mod 400 = 0 \<Longrightarrow> y mod 100 = 0"
    using dvd_trans [OF a, of y] by (simp add: mod_eq_0_iff_dvd)
  show "y mod 100 = 0 \<Longrightarrow> y mod 4 = 0"
    using dvd_trans [OF b, of y] by (simp add: mod_eq_0_iff_dvd)
qed

lemma days_before_year_step:
  "days_before_year (y + 1) = days_before_year y + 365 + (if is_leap y then 1 else 0)"
proof -
  define a b c :: int where "a = (if y mod 4 = 0 then 1 else 0)"
    and "b = (if y mod 100 = 0 then 1 else 0)" and "c = (if y mod 400 = 0 then 1 else 0)"
  define e4 e100 e400 where "e4 = (y - 1) div 4" and "e100 = (y - 1) div 100"
    and "e400 = (y - 1) div 400"
  have d4: "y div 4 = e4 + a"
    unfolding a_def e4_def by (rule div_step) simp
  have d100: "y div 100 = e100 + b"
    unfolding b_def e100_def by (rule div_step) simp
  have d400: "y div 400 = e400 + c"
    unfolding c_def e400_def by (rule div_step) simp
  have "days_before_year (y + 1) = y * 365 + y div 4 - y div 100 + y div 400"
    by (simp add: days_before_year_def)
  also have "\<dots> = y * 365 + (e4 + a) - (e100 + b) + (e400 + c)"
    by (simp only: d4 d100 d400)
  also have "\<dots> = ((y - 1) * 365 + e4 - e100 + e400) + 365 + (a - b + c)"
    by (simp add: algebra_simps)
  also have "(y - 1) * 365 + e4 - e100 + e400 = days_before_year y"
    by (simp only: days_before_year_def e4_def e100_def e400_def)
  also have "a - b + c = (if is_leap y then 1 else 0)"
    unfolding a_def b_def c_def is_leap_def
    by (rule leap_count) (erule mod_chain)+
  finally show ?thesis .
qed

lemma time_of_day_bounds:
  assumes "valid_datetime t"
  shows "0 \<le> time_of_day t" and "time_of_day t < day_microseconds"
  using assms unfolding valid_datetime_def time_of_day_def day_microseconds_def by simp_all

lemma whole_days_floor:
  fixes k r :: int
  assumes "0 \<le> r" and "r < day_microseconds"
  shows "(k * day_microseconds - r) div day_microseconds = k - (if r = 0 then 0 else 1)"
proof (cases "r = 0")
  case True
  then show ?thesis by (simp add: day_microseconds_def)
next
  case False
  with assms have r: "0 < r" "r < day_microseconds" by simp_all
  have eq: "k * day_microseconds - r = day_microseconds * (k - 1) + (day_microseconds - r)"
    by (simp add: algebra_simps)
  have "(k * day_microseconds - r) div day_microseconds = k - 1"
  proof (rule int_div_pos_eq [OF eq])
    show "0 \<le> day_microseconds - r" using r by simp
    show "day_microseconds - r < day_microseconds" using r by simp
  qed
  with False show ?thesis by simp
qed

lemma days_in_month_ge: "28 \<le> days_in_month y m"
  by (simp add: days_in_month_def)

lemma next_month_december:
  assumes "valid_datetime t" and "month t = 12" and "year t < 9999"
  shows "next_month t = Inr \<lparr>year = year t + 1, month = 1, day = 1, hour = 0, minute = 0,
           second = 0, microsecond = 0\<rparr>"
  using assms by (simp add: next_month_def datetime_ymd_def valid_datetime_def days_in_month_def)

lemma next_month_other:
  assumes "valid_datetime t" and "month t \<noteq> 12"
  shows "next_month t = Inr \<lparr>year = year t, month = month t + 1, day = 1, hour = 0,
           minute = 0, second = 0, microsecond = 0\<rparr>"
proof -
  have "1 \<le> days_in_month (year t) (month t + 1)"
    using days_in_month_ge [of "year t" "month t + 1"] by simp
  with assms show ?thesis
    by (simp add: next_month_def datetime_ymd_def valid_datetime_def)
qed

lemma next_month_december_9999:
  assumes "month t = 12" and "year t = 9999"
  shows "next_month t = Inl ValueError"
  using assms by (simp add: next_month_def datetime_ymd_def)

lemma toordinal_next_month:
  assumes "valid_datetime t" and "next_month t = Inr nm"
  shows "toordinal nm - toordinal t = days_in_month (year t) (month t) - day t + 1"
proof (cases "month t = 12")
  case True
  with assms have nm: "year nm = year t + 1" "month nm = 1" "day nm = 1"
    by (auto simp: next_month_def datetime_ymd_def split: if_splits)
  have "toordinal nm = days_before_year (year t + 1) + 1"
    by (simp add: toordinal_def nm days_before_month_def)
  also have "\<dots> = days_before_year (year t) + (days_before_month (year t) 12 + 31) + 1"
    by (simp only: days_before_year_step days_before_month_december)
  finally show ?thesis
    using True by (simp add: toordinal_def days_in_month_def)
next
  case False
  with assms have nm: "year nm = year t" "month nm = month t + 1" "day nm = 1"
    by (auto simp: next_month_def datetime_ymd_def split: if_splits)
  from assms(1) False have m: "1 \<le> month t" "month t \<le> 11"
    by (simp_all add: valid_datetime_def)
  show ?thesis
    by (simp add: toordinal_def nm days_before_month_step [OF m])
qed

lemma time_of_day_next_month:
  assumes "next_month t = Inr nm"
  shows "time_of_day nm = 0"
  using assms by (auto simp: next_month_def datetime_ymd_def time_of_day_def split: if_splits)

lemma timedelta_days_next_month:
  assumes "valid_datetime t" and "next_month t = Inr nm"
  shows "timedelta_days nm t =
           days_in_month (year t) (month t) - day t + (if time_of_day t = 0 then 1 else 0)"
proof -
  define k where "k = days_in_month (year t) (month t) - day t + 1"
  have ord: "toordinal nm = toordinal t + k"
    using toordinal_next_month [OF assms] by (simp add: k_def)
  have "total_microseconds nm - total_microseconds t = k * day_microseconds - time_of_day t"
    by (simp add: total_microseconds_def ord time_of_day_next_month [OF assms(2)] algebra_simps)
  then have "timedelta_days nm t = (k * day_microseconds - time_of_day t) div day_microseconds"
    by (simp only: timedelta_days_def)
  also have "\<dots> = k - (if time_of_day t = 0 then 0 else 1)"
    by (rule whole_days_floor) (rule time_of_day_bounds [OF assms(1)])+
  finally show ?thesis by (simp add: k_def)
qed

lemma days_remaining_nonneg:
  assumes "valid_datetime t" and "days_remaining t = Inr d"
  shows "0 \<le> d"
proof -
  from assms(2) obtain nm where nm: "next_month t = Inr nm" and d: "d = timedelta_days nm t"
    by (auto simp: days_remaining_def split: sum.splits)
  have "day t \<le> days_in_month (year t) (month t)"
    using assms(1) by (simp add: valid_datetime_def)
  then show ?thesis
    unfolding d timedelta_days_next_month [OF assms(1) nm] by simp
qed

subsection \<open>Formatted dates determine the date\<close>

lemma digit_inj:
  assumes "digit a = digit b"
  shows "a mod 10 = b mod 10"
proof -
  define i j where "i = nat (a mod 10)" and "j = nat (b mod 10)"
  have a: "0 \<le> a mod 10" "a mod 10 < 10" and b: "0 \<le> b mod 10" "b mod 10 < 10"
    by (rule pos_mod_sign, simp, rule pos_mod_bound, simp)+
  have i: "i < length ''0123456789''" and j: "j < length ''0123456789''"
    using a b by (simp_all add: i_def j_def)
  have "distinct ''0123456789''" by simp
  from nth_eq_iff_index_eq [OF this i j] assms have "i = j"
    by (simp only: digit_def i_def j_def)
  then have "int i = int j" by simp
  then show ?thesis using a b by (simp only: i_def j_def int_nat_eq if_True)
qed


lemma decimal_step:
  fixes a n :: int
  shows "a mod (n * 10) = n * (a div n mod 10) + a mod n"
  by (rule zmod_zmult2_eq) simp

lemma decimal_digit_eq:
  fixes a b n :: int
  assumes "digit (a div n) = digit (b div n)" and "a mod n = b mod n"
  shows "a mod (n * 10) = b mod (n * 10)"
  using digit_inj [OF assms(1)] assms(2) by (simp only: decimal_step)

lemma pad2_inj:
  assumes "pad2 a = pad2 b"
  shows "a mod 100 = b mod 100"
proof -
  from assms have d: "digit (a div 10) = digit (b div 10)" "digit a = digit b"
    by (simp_all only: pad2_def list.inject)
  have "a mod (10 * 10) = b mod (10 * 10)"
    by (rule decimal_digit_eq [OF d(1) digit_inj [OF d(2)]])
  then show ?thesis by (simp only: mult_numeral_left_semiring_numeral numeral_times_numeral
        semiring_norm)
qed

lemma pad4_inj:
  assumes "pad4 a = pad4 b"
  shows "a mod 10000 = b mod 10000"
proof -
  from assms have d: "digit (a div 1000) = digit (b div 1000)"
      "digit (a div 100) = digit (b div 100)" "digit (a div 10) = digit (b div 10)"
      "digit a = digit b"
    by (simp_all only: pad4_def list.inject)
  have "a mod (10 * 10) = b mod (10 * 10)"
    by (rule decimal_digit_eq [OF d(3) digit_inj [OF d(4)]])
  then have e2: "a mod 100 = b mod 100"
    by (simp only: numeral_times_numeral semiring_norm)
  have "a mod (100 * 10) = b mod (100 * 10)"
    by (rule decimal_digit_eq [OF d(2) e2])
  then have e3: "a mod 1000 = b mod 1000"
    by (simp only: numeral_times_numeral semiring_norm)
  have "a mod (1000 * 10) = b mod (1000 * 10)"
    by (rule decimal_digit_eq [OF d(1) e3])
  then show ?thesis
    by (simp only: numeral_times_numeral semiring_norm)
qed


lemma strftime_ymd_parts:
  assumes "strftime_ymd a = strftime_ymd b"
  shows "pad4 (year a) = pad4 (year b)" and "pad2 (month a) = pad2 (month b)"
    and "pad2 (day a) = pad2 (day b)"
  using assms by (simp_all add: strftime_ymd_def pad4_def pad2_def)

lemma day_le_31:
  assumes "valid_datetime t"
  shows "day t \<le> 31"
proof -
  have "days_in_month (year t) (month t) \<le> 31"
    by (simp add: days_in_month_def)
  moreover have "day t \<le> days_in_month (year t) (month t)"
    using assms by (simp add: valid_datetime_def)
  ultimately show ?thesis by (rule order_trans [rotated])
qed

lemma strftime_ymd_inj:
  assumes "valid_datetime a" and "valid_datetime b" and "strftime_ymd a = strftime_ymd b"
  shows "year a = year b \<and> month a = month b \<and> day a = day b"
proof -
  note p = strftime_ymd_parts [OF assms(3)]
  have ya: "0 \<le> year a" "year a < 10000" and yb: "0 \<le> year b" "year b < 10000"
    and ma: "0 \<le> month a" "month a < 100" and mb: "0 \<le> month b" "month b < 100"
    and da: "0 \<le> day a" and db: "0 \<le> day b"
    using assms(1,2) by (simp_all add: valid_datetime_def)
  have da': "day a < 100" and db': "day b < 100"
    using day_le_31 [OF assms(1)] day_le_31 [OF assms(2)] by simp_all
  have "year a = year b"
    using pad4_inj [OF p(1)]
    by (simp only: mod_pos_pos_trivial [OF ya] mod_pos_pos_trivial [OF yb])
  moreover have "month a = month b"
    using pad2_inj [OF p(2)]
    by (simp only: mod_pos_pos_trivial [OF ma] mod_pos_pos_trivial [OF mb])
  moreover have "day a = day b"
    using pad2_inj [OF p(3)]
    by (simp only: mod_pos_pos_trivial [OF da da'] mod_pos_pos_trivial [OF db db'])
  ultimately show ?thesis by simp
qed

subsection \<open>Commits in sequence, and example evaluations\<close>

lemma load_quota_example:
  "load_quota (world_at (Some example_quota) (at_time 2025 2 10 9))
     = (example_quota, world_at (Some example_quota) (at_time 2025 2 10 9))"
  by (simp add: load_quota_def now_def world_at_def example_quota_def at_time_def
      strftime_ym_def pad4_def pad2_def digit_def)

lemma load_quota_last_collection_date:
  assumes "quota_file w = Some q"
  shows "last_collection_date (fst (load_quota w)) = last_collection_date q"
  using assms by (simp add: load_quota_def now_def save_quota_eq Let_def)

lemma use_quota_same_month:
  assumes "quota_file w = Some q" and "current_month q = strftime_ym (clock w 0)"
  shows "use_quota k pc w =
     \<lparr>quota_file = Some (q\<lparr>processing_units_used := processing_units_used q + resolve_cost k pc,
          requests_used := requests_used q + 1,
          collections_today :=
            (if last_collection_date q \<noteq> Some (strftime_ymd (clock w 1)) then 1
             else collections_today q + 1),
          last_collection_date := Some (strftime_ymd (clock w 1)),
          last_updated := isoformat (clock w 2)\<rparr>),
       clock = \<lambda>n. clock w (Suc (Suc (Suc n)))\<rparr>"
  by (simp add: use_quota_eq [OF load_quota_same_month [OF assms]] numeral_2_eq_2)

lemma three_commits:
  assumes l: "load_quota w = (q, w1)"
    and z: "processing_units_used q = 0" "requests_used q = 0"
    and m: "\<forall>n. strftime_ym (clock w1 n) = current_month q"
  shows "map_option processing_units_used
           (quota_file (use_quota k3 (Some 40) (use_quota k2 (Some 30) (use_quota k1 (Some 30) w))))
           = Some 100
       \<and> map_option requests_used
           (quota_file (use_quota k3 (Some 40) (use_quota k2 (Some 30) (use_quota k1 (Some 30) w))))
           = Some 3"
proof -
  define wa where "wa = use_quota k1 (Some 30) w"
  define wb where "wb = use_quota k2 (Some 30) wa"
  note s1 = use_quota_eq [OF l, of k1 "Some 30", folded wa_def]
  obtain qa where fa: "quota_file wa = Some qa" and ca: "current_month qa = current_month q"
    and pa: "processing_units_used qa = 30" and ra: "requests_used qa = 1"
    by (simp add: s1 z resolve_cost_def)
  have ka: "\<And>n. clock wa n = clock w1 (Suc (Suc n))" by (simp add: s1)
  have ma: "current_month qa = strftime_ym (clock wa 0)" using m by (simp add: ca ka)
  note s2 = use_quota_same_month [OF fa ma, of k2 "Some 30", folded wb_def]
  obtain qb where fb: "quota_file wb = Some qb" and cb: "current_month qb = current_month q"
    and pb: "processing_units_used qb = 60" and rb: "requests_used qb = 2"
    by (simp add: s2 pa ra ca resolve_cost_def)
  have kb: "\<And>n. clock wb n = clock wa (Suc (Suc (Suc n)))" by (simp add: s2)
  have mb: "current_month qb = strftime_ym (clock wb 0)" using m by (simp add: cb kb ka)
  note s3 = use_quota_same_month [OF fb mb, of k3 "Some 40"]
  show ?thesis
    unfolding wa_def [symmetric] wb_def [symmetric] by (simp add: s3 pb rb resolve_cost_def)
qed

lemma next_day_commit:
  assumes v1: "valid_datetime (clock (snd (load_quota w)) 0)"
    and v2: "valid_datetime (clock (snd (load_quota (use_quota k1 pc1 w))) 0)"
    and d: "year (clock (snd (load_quota w)) 0) \<noteq> year (clock (snd (load_quota (use_quota k1 pc1 w))) 0)
          \<or> month (clock (snd (load_quota w)) 0) \<noteq> month (clock (snd (load_quota (use_quota k1 pc1 w))) 0)
          \<or> day (clock (snd (load_quota w)) 0) \<noteq> day (clock (snd (load_quota (use_quota k1 pc1 w))) 0)"
  shows "map_option collections_today (quota_file (use_quota k2 pc2 (use_quota k1 pc1 w))) = Some 1
       \<and> map_option last_collection_date (quota_file (use_quota k2 pc2 (use_quota k1 pc1 w)))
           = Some (Some (strftime_ymd (clock (snd (load_quota (use_quota k1 pc1 w))) 0)))"
proof -
  define wa where "wa = use_quota k1 pc1 w"
  define d1 where "d1 = clock (snd (load_quota w)) 0"
  define d2 where "d2 = clock (snd (load_quota wa)) 0"
  obtain q w1 where l: "load_quota w = (q, w1)" by (cases "load_quota w")
  obtain qa where fa: "quota_file wa = Some qa"
    and la: "last_collection_date qa = Some (strftime_ymd d1)"
    by (simp add: wa_def d1_def use_quota_eq [OF l] l)
  obtain qb wb where lb: "load_quota wa = (qb, wb)" by (cases "load_quota wa")
  have lcb: "last_collection_date qb = Some (strftime_ymd d1)"
    using load_quota_last_collection_date [OF fa] by (simp add: lb la)
  have "strftime_ymd d1 \<noteq> strftime_ymd d2"
    using strftime_ymd_inj [of d1 d2] v1 v2 d
    unfolding d1_def d2_def wa_def by blast
  then show ?thesis
    unfolding wa_def [symmetric] 
    by (simp add: use_quota_eq [OF lb] lcb d2_def lb)
qed


lemma example_times_valid:
  "valid_datetime (at_time 2025 2 10 9)" "valid_datetime (at_time 2025 2 11 9)"
  "strftime_ym (at_time 2025 2 10 9) = ''2025-02''"
  "strftime_ym (at_time 2025 2 11 9) = ''2025-02''"
  "strftime_ymd (at_time 2025 2 10 9) = ''2025-02-10''"
  "strftime_ymd (at_time 2025 2 11 9) = ''2025-02-11''"
  by (simp_all add: valid_datetime_def at_time_def days_in_month_def is_leap_def
      strftime_ym_def strftime_ymd_def pad4_def pad2_def digit_def)

lemma load_quota_counters_after_reset:
  assumes "quota_file w = Some q" and "processing_units_used q = 0" and "requests_used q = 0"
    and "collections_today q = 0"
  shows "processing_units_used (fst (load_quota w)) = 0
       \<and> requests_used (fst (load_quota w)) = 0
       \<and> collections_today (fst (load_quota w)) = 0"
  using assms by (simp add: load_quota_def now_def save_quota_eq Let_def)

lemma example_march:
  "strftime_ym (at_time 2025 3 3 9) = ''2025-03''"
  "isoformat (at_time 2025 3 3 9) = ''2025-03-03T09:30:00''"
  "strftime_ym (at_time 2025 3 20 9) = ''2025-03''"
  by (simp_all add: at_time_def isoformat_def strftime_ym_def strftime_ymd_def pad4_def pad2_def
      digit_def)

lemma load_quota_full_example:
  "load_quota (world_at (Some (example_quota\<lparr>requests_used := 10000\<rparr>)) (at_time 2025 2 10 9))
     = (example_quota\<lparr>requests_used := 10000\<rparr>,
        world_at (Some (example_quota\<lparr>requests_used := 10000\<rparr>)) (at_time 2025 2 10 9))"
  by (simp add: load_quota_def now_def world_at_def example_quota_def example_times_valid)

lemma safe_daily_pu_eq:
  "safe_daily_pu r d = Inr (if 0 < d then r div max d 1 else 0)"
  by (simp add: safe_daily_pu_def floordiv_def)

lemma get_quota_status_eq:
  assumes "load_quota w = (q, w1)" and "monthly_limit_pu q \<noteq> 0"
    and "days_remaining (clock w1 0) = Inr d"
  shows "get_quota_status w =
     (Inr \<lparr>st_pu_used = processing_units_used q, st_pu_remaining = remaining_pu q,
           st_pu_limit = monthly_limit_pu q, st_requests_used = requests_used q,
           st_requests_remaining = remaining_req q, st_days_remaining = d,
           st_safe_daily_pu = (if 0 < d then remaining_pu q div max d 1 else 0),
           st_collections_today = collections_today q\<rparr>,
      w1\<lparr>clock := \<lambda>n. clock w1 (Suc n)\<rparr>)"
  using assms by (simp add: get_quota_status_def now_def safe_daily_pu_eq)

lemma get_quota_status_file:
  "quota_file (snd (get_quota_status w)) = quota_file (snd (load_quota w))"
  by (simp add: get_quota_status_def now_def safe_daily_pu_eq split: prod.splits sum.splits)

lemma days_remaining_example:
  "valid_datetime (at_time 2025 2 18 9)"
  "days_remaining (at_time 2025 2 18 9) = Inr 10"
  "valid_datetime (at_time 2025 2 28 9)"
  "days_remaining (at_time 2025 2 28 9) = Inr 0"
  by (simp_all add: valid_datetime_def days_remaining_def next_month_def datetime_ymd_def
      at_time_def days_in_month_def is_leap_def timedelta_days_def total_microseconds_def
      toordinal_def days_before_year_def days_before_month_def time_of_day_def
      day_microseconds_def)

lemma load_quota_february:
  assumes "strftime_ym t = ''2025-02''"
  shows "load_quota (world_at (Some (fresh_quota\<lparr>processing_units_used := 7000\<rparr>)) t)
     = (fresh_quota\<lparr>processing_units_used := 7000\<rparr>,
        world_at (Some (fresh_quota\<lparr>processing_units_used := 7000\<rparr>)) t)"
  using assms by (simp add: load_quota_def now_def world_at_def fresh_quota_def)

lemma example_february:
  "strftime_ym (at_time 2025 2 18 9) = ''2025-02''"
  "strftime_ym (at_time 2025 2 28 9) = ''2025-02''"
  by (simp_all add: at_time_def strftime_ym_def pad4_def pad2_def digit_def)

lemma example_december:
  "valid_datetime (at_time 2025 12 31 18)" "valid_datetime (at_time 2025 11 4 9)"
  "valid_datetime (at_time 9999 12 31 18)"
  by (simp_all add: valid_datetime_def at_time_def days_in_month_def is_leap_def)

section \<open>Properties\<close>

text \<open>
  C9. The admission check never looks at the operation kind: for one world and one cost,
  any two kinds get the same answer (and leave the same world behind).
\<close>

theorem check_quota_ignores_kind:
  "check_quota k1 c w = check_quota k2 c w"
  by (simp add: check_quota_def)

text \<open>
  C1. Whatever state \<open>q\<close> the load inside the check returns, \<^verbatim>\<open>check_quota\<close> with cost
  \<open>c\<close> answers true exactly when \<open>monthly_limit_pu - processing_units_used\<close> is at least
  \<open>c\<close> and \<open>monthly_limit_requests - requests_used\<close> is at least 1. With a limit of 100 and
  80 units used, a cost of 30 is refused and a cost of 20 is admitted (a request being left).
\<close>

theorem check_quota_admission:
  assumes "load_quota w = (q, w1)"
  shows "fst (check_quota k c w)
           = (c \<le> monthly_limit_pu q - processing_units_used q
              \<and> 1 \<le> monthly_limit_requests q - requests_used q)
         \<and> (monthly_limit_pu q = 100 \<and> processing_units_used q = 80 \<longrightarrow>
              \<not> fst (check_quota k 30 w)
              \<and> (1 \<le> monthly_limit_requests q - requests_used q \<longrightarrow> fst (check_quota k 20 w)))"
  using assms by (simp add: check_quota_eq remaining_pu_def remaining_req_def)

text \<open>The check evaluated on a stored state with limit 100 and 80 units used.\<close>

theorem check_quota_admission_witness:
  "load_quota (world_at (Some example_quota) (at_time 2025 2 10 9))
     = (example_quota, world_at (Some example_quota) (at_time 2025 2 10 9))
   \<and> monthly_limit_pu example_quota = 100 \<and> processing_units_used example_quota = 80
   \<and> \<not> fst (check_quota ''ndvi'' 30 (world_at (Some example_quota) (at_time 2025 2 10 9)))
   \<and> fst (check_quota ''ndvi'' 20 (world_at (Some example_quota) (at_time 2025 2 10 9)))"
proof -
  have fields: "monthly_limit_pu example_quota = 100" "processing_units_used example_quota = 80"
      "monthly_limit_requests example_quota = 10000" "requests_used example_quota = 5"
    by (simp_all add: example_quota_def)
  show ?thesis
    using check_quota_admission [OF load_quota_example, of "''ndvi''" 30]
    by (simp add: load_quota_example fields)
qed

text \<open>
  C2, as amended. A commit with an explicit cost \<open>c\<close> writes the loaded state \<open>q\<close> with \<open>c\<close> added to
  \<open>processing_units_used\<close>, 1 added to \<open>requests_used\<close>, the daily counter set to 1 and
  the date set to today when today is not the stored \<open>last_collection_date\<close>, and the
  daily counter incremented otherwise; nothing else changes but the time stamp. Hence
  three commits of 30, 30 and 40 made within one calendar month, on a loaded state with
  zeroed counters (stored, freshly created or just reset), leave 100 units and
  3 requests; and a commit on one day followed by
  a commit on another day leaves \<open>collections_today = 1\<close> and the second day as
  \<open>last_collection_date\<close>.
\<close>

theorem use_quota_commit:
  assumes "load_quota w = (q, w1)"
  shows "quota_file (use_quota k (Some c) w)
           = Some (q\<lparr>processing_units_used := processing_units_used q + c,
                requests_used := requests_used q + 1,
                collections_today :=
                  (if last_collection_date q \<noteq> Some (strftime_ymd (clock w1 0)) then 1
                   else collections_today q + 1),
                last_collection_date := Some (strftime_ymd (clock w1 0)),
                last_updated := isoformat (clock w1 1)\<rparr>)
       \<and> (processing_units_used q = 0 \<and> requests_used q = 0
            \<and> (\<forall>n. strftime_ym (clock w1 n) = current_month q) \<longrightarrow>
          map_option processing_units_used
            (quota_file (use_quota kb (Some 40) (use_quota ka (Some 30) (use_quota k (Some 30) w))))
            = Some 100
          \<and> map_option requests_used
            (quota_file (use_quota kb (Some 40) (use_quota ka (Some 30) (use_quota k (Some 30) w))))
            = Some 3)
       \<and> (valid_datetime (clock w1 0)
            \<and> valid_datetime (clock (snd (load_quota (use_quota k (Some c) w))) 0)
            \<and> (year (clock w1 0) \<noteq> year (clock (snd (load_quota (use_quota k (Some c) w))) 0)
               \<or> month (clock w1 0) \<noteq> month (clock (snd (load_quota (use_quota k (Some c) w))) 0)
               \<or> day (clock w1 0) \<noteq> day (clock (snd (load_quota (use_quota k (Some c) w))) 0)) \<longrightarrow>
          map_option collections_today
            (quota_file (use_quota ka (Some ca) (use_quota k (Some c) w))) = Some 1
          \<and> map_option last_collection_date
            (quota_file (use_quota ka (Some ca) (use_quota k (Some c) w)))
            = Some (Some (strftime_ymd (clock (snd (load_quota (use_quota k (Some c) w))) 0))))"
proof (intro conjI impI)
  show "quota_file (use_quota k (Some c) w)
           = Some (q\<lparr>processing_units_used := processing_units_used q + c,
                requests_used := requests_used q + 1,
                collections_today :=
                  (if last_collection_date q \<noteq> Some (strftime_ymd (clock w1 0)) then 1
                   else collections_today q + 1),
                last_collection_date := Some (strftime_ymd (clock w1 0)),
                last_updated := isoformat (clock w1 1)\<rparr>)"
    by (simp add: use_quota_eq [OF assms] resolve_cost_def)
next
  assume h: "processing_units_used q = 0 \<and> requests_used q = 0
            \<and> (\<forall>n. strftime_ym (clock w1 n) = current_month q)"
  then have t: "map_option processing_units_used
            (quota_file (use_quota kb (Some 40) (use_quota ka (Some 30) (use_quota k (Some 30) w))))
            = Some 100
          \<and> map_option requests_used
            (quota_file (use_quota kb (Some 40) (use_quota ka (Some 30) (use_quota k (Some 30) w))))
            = Some 3"
    by (intro three_commits [OF assms]) simp_all
  from t show "map_option processing_units_used
            (quota_file (use_quota kb (Some 40) (use_quota ka (Some 30) (use_quota k (Some 30) w))))
            = Some 100" ..
  from t show "map_option requests_used
            (quota_file (use_quota kb (Some 40) (use_quota ka (Some 30) (use_quota k (Some 30) w))))
            = Some 3" ..
next
  assume h: "valid_datetime (clock w1 0)
            \<and> valid_datetime (clock (snd (load_quota (use_quota k (Some c) w))) 0)
            \<and> (year (clock w1 0) \<noteq> year (clock (snd (load_quota (use_quota k (Some c) w))) 0)
               \<or> month (clock w1 0) \<noteq> month (clock (snd (load_quota (use_quota k (Some c) w))) 0)
               \<or> day (clock w1 0) \<noteq> day (clock (snd (load_quota (use_quota k (Some c) w))) 0))"
  have w1: "w1 = snd (load_quota w)" by (simp add: assms)
  from h have t: "map_option collections_today
            (quota_file (use_quota ka (Some ca) (use_quota k (Some c) w))) = Some 1
          \<and> map_option last_collection_date
            (quota_file (use_quota ka (Some ca) (use_quota k (Some c) w)))
            = Some (Some (strftime_ymd (clock (snd (load_quota (use_quota k (Some c) w))) 0)))"
    unfolding w1 by (intro next_day_commit) simp_all
  from t show "map_option collections_today
            (quota_file (use_quota ka (Some ca) (use_quota k (Some c) w))) = Some 1" ..
  from t show "map_option last_collection_date
            (quota_file (use_quota ka (Some ca) (use_quota k (Some c) w)))
            = Some (Some (strftime_ymd (clock (snd (load_quota (use_quota k (Some c) w))) 0)))" ..
qed


text \<open>
  Commits on 10 February 2025 and the following day, starting from a stored state with
  zeroed counters, and three commits on 10 February starting without a file.
\<close>

theorem use_quota_commit_witness:
  "load_quota (world_then (Some fresh_quota) (at_time 2025 2 10 9) (at_time 2025 2 11 9))
     = (fresh_quota, \<lparr>quota_file = Some fresh_quota,
          clock = \<lambda>n. if n < 2 then at_time 2025 2 10 9 else at_time 2025 2 11 9\<rparr>)
   \<and> map_option processing_units_used (quota_file (use_quota ''ndvi'' (Some 30)
        (world_then (Some fresh_quota) (at_time 2025 2 10 9) (at_time 2025 2 11 9)))) = Some 30
   \<and> map_option processing_units_used (quota_file
        (use_quota ''zonal_stats'' (Some 40) (use_quota ''ndwi'' (Some 30) (use_quota ''ndvi'' (Some 30)
          (world_then (Some fresh_quota) (at_time 2025 2 10 9) (at_time 2025 2 11 9)))))) = Some 100
   \<and> map_option requests_used (quota_file
        (use_quota ''zonal_stats'' (Some 40) (use_quota ''ndwi'' (Some 30) (use_quota ''ndvi'' (Some 30)
          (world_then (Some fresh_quota) (at_time 2025 2 10 9) (at_time 2025 2 11 9)))))) = Some 3
   \<and> map_option collections_today (quota_file
        (use_quota ''ndwi'' (Some 30) (use_quota ''ndvi'' (Some 30)
          (world_then (Some fresh_quota) (at_time 2025 2 10 9) (at_time 2025 2 11 9))))) = Some 1
   \<and> map_option last_collection_date (quota_file
        (use_quota ''ndwi'' (Some 30) (use_quota ''ndvi'' (Some 30)
          (world_then (Some fresh_quota) (at_time 2025 2 10 9) (at_time 2025 2 11 9)))))
        = Some (Some ''2025-02-11'')
   \<and> map_option processing_units_used (quota_file
        (use_quota ''zonal_stats'' (Some 40) (use_quota ''ndwi'' (Some 30) (use_quota ''ndvi'' (Some 30)
          (world_at None (at_time 2025 2 10 9)))))) = Some 100
   \<and> map_option requests_used (quota_file
        (use_quota ''zonal_stats'' (Some 40) (use_quota ''ndwi'' (Some 30) (use_quota ''ndvi'' (Some 30)
          (world_at None (at_time 2025 2 10 9)))))) = Some 3"
proof -
  define w0 where "w0 = world_then (Some fresh_quota) (at_time 2025 2 10 9) (at_time 2025 2 11 9)"
  have f: "quota_file w0 = Some fresh_quota"
    and c: "\<And>n. clock w0 n = (if n < 3 then at_time 2025 2 10 9 else at_time 2025 2 11 9)"
    by (simp_all add: w0_def world_then_def)
  have cm: "current_month fresh_quota = ''2025-02''"
    and z: "processing_units_used fresh_quota = 0" "requests_used fresh_quota = 0"
    by (simp_all add: fresh_quota_def)
  have m: "\<forall>n. strftime_ym (clock w0 n) = current_month fresh_quota"
    by (simp add: c cm example_times_valid)
  then have m0: "current_month fresh_quota = strftime_ym (clock w0 0)" by simp
  have w0': "w0\<lparr>clock := \<lambda>n. clock w0 (Suc n)\<rparr> = \<lparr>quota_file = Some fresh_quota,
          clock = \<lambda>n. if n < 2 then at_time 2025 2 10 9 else at_time 2025 2 11 9\<rparr>"
    by (auto simp: w0_def world_then_def less_Suc_eq numeral_2_eq_2 numeral_3_eq_3)
  have l: "load_quota w0 = (fresh_quota, \<lparr>quota_file = Some fresh_quota,
          clock = \<lambda>n. if n < 2 then at_time 2025 2 10 9 else at_time 2025 2 11 9\<rparr>)"
    using load_quota_same_month [OF f m0] by (simp only: w0')
  note u = use_quota_same_month [OF f m0, of "''ndvi''" "Some 30"]
  have l2: "clock (snd (load_quota (use_quota ''ndvi'' (Some 30) w0))) 0 = at_time 2025 2 11 9"
    by (subst load_quota_same_month [where q = "the (quota_file (use_quota ''ndvi'' (Some 30) w0))"])
       (simp_all add: u c cm example_times_valid)
  have d: "day (at_time 2025 2 10 9) \<noteq> day (at_time 2025 2 11 9)"
    by (simp add: at_time_def)
  have m1: "\<forall>n. strftime_ym (clock \<lparr>quota_file = Some fresh_quota,
          clock = \<lambda>n. if n < 2 then at_time 2025 2 10 9 else at_time 2025 2 11 9\<rparr> n)
        = current_month fresh_quota"
    by (simp add: cm example_times_valid)
  have iso: "isoformat (at_time 2025 2 10 9) = ''2025-02-10T09:30:00''"
    by (simp add: at_time_def isoformat_def strftime_ymd_def pad4_def pad2_def digit_def)
  have n: "load_quota (world_at None (at_time 2025 2 10 9)) =
      (\<lparr>monthly_limit_pu = 10000, monthly_limit_requests = 10000,
           current_month = ''2025-02'', processing_units_used = 0, requests_used = 0,
           last_updated = ''2025-02-10T09:30:00'', daily_budget_pu = 300,
           daily_budget_requests = 300, collections_today = 0, last_collection_date = None\<rparr>,
       \<lparr>quota_file = Some \<lparr>monthly_limit_pu = 10000, monthly_limit_requests = 10000,
           current_month = ''2025-02'', processing_units_used = 0, requests_used = 0,
           last_updated = ''2025-02-10T09:30:00'', daily_budget_pu = 300,
           daily_budget_requests = 300, collections_today = 0, last_collection_date = None\<rparr>,
        clock = \<lambda>n. at_time 2025 2 10 9\<rparr>)"
    by (simp add: load_quota_absent world_at_def iso example_times_valid)
  have a: "map_option processing_units_used (quota_file (use_quota ''ndvi'' (Some 30) w0)) = Some 30
   \<and> map_option processing_units_used (quota_file
        (use_quota ''zonal_stats'' (Some 40) (use_quota ''ndwi'' (Some 30) (use_quota ''ndvi'' (Some 30)
          w0)))) = Some 100
   \<and> map_option requests_used (quota_file
        (use_quota ''zonal_stats'' (Some 40) (use_quota ''ndwi'' (Some 30) (use_quota ''ndvi'' (Some 30)
          w0)))) = Some 3
   \<and> map_option collections_today (quota_file
        (use_quota ''ndwi'' (Some 30) (use_quota ''ndvi'' (Some 30) w0))) = Some 1
   \<and> map_option last_collection_date (quota_file
        (use_quota ''ndwi'' (Some 30) (use_quota ''ndvi'' (Some 30) w0)))
        = Some (Some ''2025-02-11'')"
    using use_quota_commit [OF l, where k = "''ndvi''" and c = 30
        and kb = "''zonal_stats''" and ka = "''ndwi''" and ca = 30] z m1 d
    by (simp add: l l2 example_times_valid)
  have b: "map_option processing_units_used (quota_file
        (use_quota ''zonal_stats'' (Some 40) (use_quota ''ndwi'' (Some 30) (use_quota ''ndvi'' (Some 30)
          (world_at None (at_time 2025 2 10 9)))))) = Some 100
   \<and> map_option requests_used (quota_file
        (use_quota ''zonal_stats'' (Some 40) (use_quota ''ndwi'' (Some 30) (use_quota ''ndvi'' (Some 30)
          (world_at None (at_time 2025 2 10 9)))))) = Some 3"
    using use_quota_commit [OF n, where k = "''ndvi''" and c = 30
        and kb = "''zonal_stats''" and ka = "''ndwi''" and ca = 30]
    by (simp add: example_times_valid)
  show ?thesis
    unfolding w0_def [symmetric] using a b l by (simp add: w0_def)
qed

text \<open>
  C2 as stated fails when the month changes between the commits: the load inside the
  second commit resets the counters first. Three commits of 30, 30 and 40 on zeroed
  counters, the first on 31 January 2025 and the others on 1 February, leave 70 units
  and 2 requests.
\<close>

theorem use_quota_commit_month_end:
  "processing_units_used (fresh_quota\<lparr>current_month := ''2025-01''\<rparr>) = 0
   \<and> requests_used (fresh_quota\<lparr>current_month := ''2025-01''\<rparr>) = 0
   \<and> map_option processing_units_used (quota_file
        (use_quota ''zonal_stats'' (Some 40) (use_quota ''ndwi'' (Some 30) (use_quota ''ndvi'' (Some 30)
          (world_then (Some (fresh_quota\<lparr>current_month := ''2025-01''\<rparr>))
             (at_time 2025 1 31 9) (at_time 2025 2 1 9)))))) = Some 70
   \<and> map_option requests_used (quota_file
        (use_quota ''zonal_stats'' (Some 40) (use_quota ''ndwi'' (Some 30) (use_quota ''ndvi'' (Some 30)
          (world_then (Some (fresh_quota\<lparr>current_month := ''2025-01''\<rparr>))
             (at_time 2025 1 31 9) (at_time 2025 2 1 9)))))) = Some 2"
proof -
  define qj where "qj = fresh_quota\<lparr>current_month := ''2025-01''\<rparr>"
  define w0 where "w0 = world_then (Some qj) (at_time 2025 1 31 9) (at_time 2025 2 1 9)"
  have t: "strftime_ym (at_time 2025 1 31 9) = ''2025-01''"
      "strftime_ym (at_time 2025 2 1 9) = ''2025-02''"
    by (simp_all add: at_time_def strftime_ym_def pad4_def pad2_def digit_def)
  have f: "quota_file w0 = Some qj"
    and c: "\<And>n. clock w0 n = (if n < 3 then at_time 2025 1 31 9 else at_time 2025 2 1 9)"
    by (simp_all add: w0_def world_then_def)
  have q: "current_month qj = ''2025-01''" "processing_units_used qj = 0" "requests_used qj = 0"
    by (simp_all add: qj_def fresh_quota_def)
  have m0: "current_month qj = strftime_ym (clock w0 0)"
    by (simp add: c q t)
  define wa where "wa = use_quota ''ndvi'' (Some 30) w0"
  note s1 = use_quota_same_month [OF f m0, of "''ndvi''" "Some 30", folded wa_def]
  obtain qa where fa: "quota_file wa = Some qa" and ca: "current_month qa = ''2025-01''"
    and pa: "processing_units_used qa = 30" and ra: "requests_used qa = 1"
    by (simp add: s1 q resolve_cost_def)
  have ka: "\<And>n. clock wa n = at_time 2025 2 1 9"
    by (simp add: s1 c)
  have stale: "current_month qa \<noteq> strftime_ym (clock wa 0)"
    by (simp add: ca ka t)
  define wb where "wb = use_quota ''ndwi'' (Some 30) wa"
  note s2 = use_quota_eq [OF load_quota_stale [OF fa stale], of "''ndwi''" "Some 30",
      folded wb_def]
  obtain qb where fb: "quota_file wb = Some qb" and cb: "current_month qb = ''2025-02''"
    and pb: "processing_units_used qb = 30" and rb: "requests_used qb = 1"
    by (simp add: s2 ka t resolve_cost_def)
  have kb: "\<And>n. clock wb n = at_time 2025 2 1 9"
    by (simp add: s2 ka)
  have mb: "current_month qb = strftime_ym (clock wb 0)"
    by (simp add: cb kb t)
  note s3 = use_quota_same_month [OF fb mb, of "''zonal_stats''" "Some 40"]
  show ?thesis
    unfolding qj_def [symmetric] w0_def [symmetric] wa_def [symmetric] wb_def [symmetric]
    by (simp add: s3 pb rb q resolve_cost_def)
qed

text \<open>
  C3. When the stored \<open>current_month\<close> is not the month of the clock, \<^verbatim>\<open>load_quota\<close>
  returns the stored state with \<open>processing_units_used\<close>, \<open>requests_used\<close> and
  \<open>collections_today\<close> set to 0 and \<open>current_month\<close> set to the clock's month, and the
  file holds exactly the returned state, so that a following load, at whatever times
  \<open>later\<close>, sees zeroed counters. In the stored month the load returns the stored state and
  leaves the file as it is. In every case, also when no file exists, the returned
  \<open>current_month\<close> is the month of the clock reading taken by the load.
\<close>

theorem load_quota_rollover:
  "(quota_file w = Some q \<and> current_month q \<noteq> strftime_ym (clock w 0) \<longrightarrow>
      fst (load_quota w)
        = q\<lparr>current_month := strftime_ym (clock w 0), processing_units_used := 0,
             requests_used := 0, collections_today := 0,
             last_updated := isoformat (clock w 1)\<rparr>
      \<and> quota_file (snd (load_quota w)) = Some (fst (load_quota w))
      \<and> processing_units_used (fst (load_quota (snd (load_quota w)\<lparr>clock := later\<rparr>))) = 0
      \<and> requests_used (fst (load_quota (snd (load_quota w)\<lparr>clock := later\<rparr>))) = 0
      \<and> collections_today (fst (load_quota (snd (load_quota w)\<lparr>clock := later\<rparr>))) = 0)
   \<and> (quota_file w = Some q \<and> current_month q = strftime_ym (clock w 0) \<longrightarrow>
      fst (load_quota w) = q \<and> quota_file (snd (load_quota w)) = Some q)
   \<and> current_month (fst (load_quota w)) = strftime_ym (clock w 0)"
proof (intro conjI impI)
  assume h: "quota_file w = Some q \<and> current_month q \<noteq> strftime_ym (clock w 0)"
  then have f: "quota_file w = Some q" and s: "current_month q \<noteq> strftime_ym (clock w 0)"
    by simp_all
  note l = load_quota_stale [OF f s]
  show "fst (load_quota w)
        = q\<lparr>current_month := strftime_ym (clock w 0), processing_units_used := 0,
             requests_used := 0, collections_today := 0,
             last_updated := isoformat (clock w 1)\<rparr>"
    by (simp add: l)
  show "quota_file (snd (load_quota w)) = Some (fst (load_quota w))"
    by (rule load_quota_file)
  define w' where "w' = snd (load_quota w)\<lparr>clock := later\<rparr>"
  have "processing_units_used (fst (load_quota w')) = 0
       \<and> requests_used (fst (load_quota w')) = 0
       \<and> collections_today (fst (load_quota w')) = 0"
    by (rule load_quota_counters_after_reset [where q = "fst (load_quota w)"])
       (simp_all add: w'_def l)
  then show "processing_units_used (fst (load_quota (snd (load_quota w)\<lparr>clock := later\<rparr>))) = 0"
    and "requests_used (fst (load_quota (snd (load_quota w)\<lparr>clock := later\<rparr>))) = 0"
    and "collections_today (fst (load_quota (snd (load_quota w)\<lparr>clock := later\<rparr>))) = 0"
    by (simp_all add: w'_def)
next
  assume h: "quota_file w = Some q \<and> current_month q = strftime_ym (clock w 0)"
  then have l: "load_quota w = (q, w\<lparr>clock := \<lambda>n. clock w (Suc n)\<rparr>)"
    by (intro load_quota_same_month) simp_all
  show "fst (load_quota w) = q" by (simp add: l)
  show "quota_file (snd (load_quota w)) = Some q" using h by (simp add: l)
next
  show "current_month (fst (load_quota w)) = strftime_ym (clock w 0)"
    by (rule load_quota_current_month)
qed

text \<open>
  A state of February 2025 loaded on 3 March 2025 and again on 20 March, and loaded on
  10 February.
\<close>

theorem load_quota_rollover_witness:
  "fst (load_quota (world_at (Some example_quota) (at_time 2025 3 3 9)))
     = example_quota\<lparr>current_month := ''2025-03'', processing_units_used := 0,
         requests_used := 0, collections_today := 0, last_updated := ''2025-03-03T09:30:00''\<rparr>
   \<and> quota_file (snd (load_quota (world_at (Some example_quota) (at_time 2025 3 3 9))))
     = Some (example_quota\<lparr>current_month := ''2025-03'', processing_units_used := 0,
         requests_used := 0, collections_today := 0, last_updated := ''2025-03-03T09:30:00''\<rparr>)
   \<and> processing_units_used (fst (load_quota
        (snd (load_quota (world_at (Some example_quota) (at_time 2025 3 3 9)))
           \<lparr>clock := \<lambda>n. at_time 2025 3 20 9\<rparr>))) = 0
   \<and> fst (load_quota (world_at (Some example_quota) (at_time 2025 2 10 9))) = example_quota
   \<and> quota_file (snd (load_quota (world_at (Some example_quota) (at_time 2025 2 10 9))))
     = Some example_quota"
proof -
  have cm: "current_month example_quota = ''2025-02''"
    by (simp add: example_quota_def)
  have w: "\<And>f t. quota_file (world_at f t) = f" "\<And>f t n. clock (world_at f t) n = t"
    by (simp_all add: world_at_def)
  show ?thesis
    using load_quota_rollover [of "world_at (Some example_quota) (at_time 2025 3 3 9)"
        example_quota "\<lambda>n. at_time 2025 3 20 9"]
      load_quota_rollover [of "world_at (Some example_quota) (at_time 2025 2 10 9)"
        example_quota]
    by (simp add: w cm example_march example_times_valid)
qed

text \<open>
  C4. A commit of any cost, explicit or from the table, on any loaded state \<open>q\<close> writes
  \<open>processing_units_used q + cost\<close> and \<open>requests_used q + 1\<close> and leaves both limits as
  they are: there is no clamping and no refusal, so when the sum passes the limit the
  file holds a usage above the limit.
\<close>

theorem use_quota_records_overage:
  assumes "load_quota w = (q, w1)"
  shows "map_option processing_units_used (quota_file (use_quota k pc w))
           = Some (processing_units_used q + resolve_cost k pc)
       \<and> map_option requests_used (quota_file (use_quota k pc w)) = Some (requests_used q + 1)
       \<and> map_option monthly_limit_pu (quota_file (use_quota k pc w)) = Some (monthly_limit_pu q)
       \<and> map_option monthly_limit_requests (quota_file (use_quota k pc w))
           = Some (monthly_limit_requests q)
       \<and> (monthly_limit_pu q < processing_units_used q + resolve_cost k pc \<longrightarrow>
            (\<exists>q'. quota_file (use_quota k pc w) = Some q'
                  \<and> monthly_limit_pu q' < processing_units_used q'))
       \<and> (monthly_limit_requests q < requests_used q + 1 \<longrightarrow>
            (\<exists>q'. quota_file (use_quota k pc w) = Some q'
                  \<and> monthly_limit_requests q' < requests_used q'))"
  by (simp add: use_quota_eq [OF assms])

text \<open>
  A commit of 50 units on a state with 80 of 100 units and all 10000 requests used.
\<close>

theorem use_quota_records_overage_witness:
  "load_quota (world_at (Some (example_quota\<lparr>requests_used := 10000\<rparr>)) (at_time 2025 2 10 9))
     = (example_quota\<lparr>requests_used := 10000\<rparr>,
        world_at (Some (example_quota\<lparr>requests_used := 10000\<rparr>)) (at_time 2025 2 10 9))
   \<and> map_option monthly_limit_pu (quota_file (use_quota ''map_rgb'' (Some 50)
        (world_at (Some (example_quota\<lparr>requests_used := 10000\<rparr>)) (at_time 2025 2 10 9))))
       = Some 100
   \<and> map_option processing_units_used (quota_file (use_quota ''map_rgb'' (Some 50)
        (world_at (Some (example_quota\<lparr>requests_used := 10000\<rparr>)) (at_time 2025 2 10 9))))
       = Some 130
   \<and> map_option monthly_limit_requests (quota_file (use_quota ''map_rgb'' (Some 50)
        (world_at (Some (example_quota\<lparr>requests_used := 10000\<rparr>)) (at_time 2025 2 10 9))))
       = Some 10000
   \<and> map_option requests_used (quota_file (use_quota ''map_rgb'' (Some 50)
        (world_at (Some (example_quota\<lparr>requests_used := 10000\<rparr>)) (at_time 2025 2 10 9))))
       = Some 10001
   \<and> (\<exists>q'. quota_file (use_quota ''map_rgb'' (Some 50)
        (world_at (Some (example_quota\<lparr>requests_used := 10000\<rparr>)) (at_time 2025 2 10 9)))
          = Some q'
        \<and> monthly_limit_pu q' < processing_units_used q'
        \<and> monthly_limit_requests q' < requests_used q')"
proof -
  have fields: "monthly_limit_pu example_quota = 100" "processing_units_used example_quota = 80"
      "monthly_limit_requests example_quota = 10000"
    by (simp_all add: example_quota_def)
  show ?thesis
    using use_quota_records_overage [OF load_quota_full_example, of "''map_rgb''" "Some 50"]
    by (auto simp: load_quota_full_example fields resolve_cost_def)
qed

text \<open>
  C10. For an operation kind that is not a key of \<^verbatim>\<open>PU_COSTS\<close>, a commit without an
  explicit cost charges 30 units.
\<close>

theorem use_quota_default_cost:
  assumes "k \<notin> fst ` set PU_COSTS" and "load_quota w = (q, w1)"
  shows "resolve_cost k None = 30
       \<and> map_option processing_units_used (quota_file (use_quota k None w))
           = Some (processing_units_used q + 30)"
proof -
  from assms(1) have "map_of PU_COSTS k = None"
    by (simp only: map_of_eq_None_iff not_False_eq_True)
  then have "resolve_cost k None = 30"
    by (simp add: resolve_cost_def)
  then show ?thesis
    by (simp add: use_quota_eq [OF assms(2)])
qed

text \<open>
  The kinds \<^verbatim>\<open>collection\<close> and \<^verbatim>\<open>general\<close> are not in the table and cost 30.
\<close>

theorem use_quota_default_cost_witness:
  "''collection'' \<notin> fst ` set PU_COSTS \<and> ''general'' \<notin> fst ` set PU_COSTS
   \<and> resolve_cost ''collection'' None = 30 \<and> resolve_cost ''general'' None = 30
   \<and> map_option processing_units_used (quota_file (use_quota ''collection'' None
        (world_at (Some example_quota) (at_time 2025 2 10 9)))) = Some 110
   \<and> map_option processing_units_used (quota_file (use_quota ''general'' None
        (world_at (Some example_quota) (at_time 2025 2 10 9)))) = Some 110"
proof -
  have a: "''collection'' \<notin> fst ` set PU_COSTS" and b: "''general'' \<notin> fst ` set PU_COSTS"
    by (simp_all add: PU_COSTS_def)
  have u: "processing_units_used example_quota = 80"
    by (simp add: example_quota_def)
  show ?thesis
    using use_quota_default_cost [OF a load_quota_example]
      use_quota_default_cost [OF b load_quota_example] a b
    by (simp add: u)
qed

text \<open>
  C5. For every remaining budget \<open>r\<close> and every clock reading \<open>t\<close> whose days remaining in
  the month are \<open>d\<close>: \<open>d\<close> is positive or 0; the safe daily budget is the floor of
  \<open>r / max d 1\<close> when \<open>d\<close> is positive and 0 when \<open>d\<close> is 0, and the division never fails;
  3000 units over 10 days give 300. \<^verbatim>\<open>get_quota_status\<close> reports this value for the
  remaining units of the loaded state (the status as a whole needs a limit other than 0,
  which the percentage divides by).
\<close>

theorem safe_daily_pu_budget:
  assumes "valid_datetime t" and "days_remaining t = Inr d"
  shows "(0 < d \<longrightarrow> safe_daily_pu r d = Inr (r div max d 1))
       \<and> (d = 0 \<longrightarrow> safe_daily_pu r d = Inr 0)
       \<and> (0 < d \<or> d = 0)
       \<and> safe_daily_pu 3000 10 = Inr 300
       \<and> (load_quota w = (q, w1) \<and> clock w1 0 = t \<and> monthly_limit_pu q \<noteq> 0 \<longrightarrow>
            (\<exists>st. fst (get_quota_status w) = Inr st
               \<and> st_days_remaining st = d
               \<and> st_pu_remaining st = monthly_limit_pu q - processing_units_used q
               \<and> st_safe_daily_pu st
                    = (if 0 < d then st_pu_remaining st div max d 1 else 0)))"
proof (intro conjI impI)
  show "0 < d \<or> d = 0"
    using days_remaining_nonneg [OF assms] by arith
  show "safe_daily_pu 3000 10 = Inr 300"
    by (simp add: safe_daily_pu_eq)
next
  assume "0 < d"
  then show "safe_daily_pu r d = Inr (r div max d 1)"
    by (simp add: safe_daily_pu_eq)
next
  assume "d = 0"
  then show "safe_daily_pu r d = Inr 0"
    by (simp add: safe_daily_pu_eq)
next
  assume h: "load_quota w = (q, w1) \<and> clock w1 0 = t \<and> monthly_limit_pu q \<noteq> 0"
  then have "days_remaining (clock w1 0) = Inr d"
    using assms(2) by simp
  with h show "\<exists>st. fst (get_quota_status w) = Inr st
               \<and> st_days_remaining st = d
               \<and> st_pu_remaining st = monthly_limit_pu q - processing_units_used q
               \<and> st_safe_daily_pu st
                    = (if 0 < d then st_pu_remaining st div max d 1 else 0)"
    by (simp add: get_quota_status_eq [where q = q and ?w1.0 = w1 and d = d] remaining_pu_def)
qed

text \<open>
  A state with 3000 of 10000 units left, on 18 February 2025 (10 days remain) and on
  28 February 2025 (0 whole days remain).
\<close>

theorem safe_daily_pu_budget_witness:
  "valid_datetime (at_time 2025 2 18 9) \<and> days_remaining (at_time 2025 2 18 9) = Inr 10
   \<and> safe_daily_pu 3000 10 = Inr 300
   \<and> (\<exists>st. fst (get_quota_status
          (world_at (Some (fresh_quota\<lparr>processing_units_used := 7000\<rparr>)) (at_time 2025 2 18 9)))
            = Inr st
        \<and> st_pu_remaining st = 3000 \<and> st_days_remaining st = 10 \<and> st_safe_daily_pu st = 300)
   \<and> valid_datetime (at_time 2025 2 28 9) \<and> days_remaining (at_time 2025 2 28 9) = Inr 0
   \<and> safe_daily_pu 3000 0 = Inr 0
   \<and> (\<exists>st. fst (get_quota_status
          (world_at (Some (fresh_quota\<lparr>processing_units_used := 7000\<rparr>)) (at_time 2025 2 28 9)))
            = Inr st
        \<and> st_pu_remaining st = 3000 \<and> st_days_remaining st = 0 \<and> st_safe_daily_pu st = 0)"
proof -
  have fields: "monthly_limit_pu fresh_quota = 10000"
    by (simp add: fresh_quota_def)
  have c: "\<And>f t n. clock (world_at f t) n = t"
    by (simp add: world_at_def)
  note a = safe_daily_pu_budget [OF days_remaining_example(1,2), of 3000
      "world_at (Some (fresh_quota\<lparr>processing_units_used := 7000\<rparr>)) (at_time 2025 2 18 9)"
      "fresh_quota\<lparr>processing_units_used := 7000\<rparr>"
      "world_at (Some (fresh_quota\<lparr>processing_units_used := 7000\<rparr>)) (at_time 2025 2 18 9)"]
  note b = safe_daily_pu_budget [OF days_remaining_example(3,4), of 3000
      "world_at (Some (fresh_quota\<lparr>processing_units_used := 7000\<rparr>)) (at_time 2025 2 28 9)"
      "fresh_quota\<lparr>processing_units_used := 7000\<rparr>"
      "world_at (Some (fresh_quota\<lparr>processing_units_used := 7000\<rparr>)) (at_time 2025 2 28 9)"]
  show ?thesis
    using a b
    by (auto simp: days_remaining_example load_quota_february [OF example_february(1)]
        load_quota_february [OF example_february(2)] c fields)
qed

text \<open>
  C6, as amended. For every December reading of a year before 9999 the target is
  1 January of the next year, a date of the calendar, and the days remaining are the whole
  days up to it: 31 minus the day, plus 1 at midnight sharp. For every reading outside
  December the target is the first day of the next month of the same year, again a date of
  the calendar, and the days remaining are the whole days up to it: the length of the
  month minus the day, plus 1 at midnight sharp.
\<close>

theorem days_remaining_month_end:
  assumes "valid_datetime t"
  shows "(month t = 12 \<and> year t < 9999 \<longrightarrow>
            next_month t = Inr \<lparr>year = year t + 1, month = 1, day = 1, hour = 0, minute = 0,
                                second = 0, microsecond = 0\<rparr>
          \<and> valid_datetime \<lparr>year = year t + 1, month = 1, day = 1, hour = 0, minute = 0,
                                second = 0, microsecond = 0\<rparr>
          \<and> days_remaining t
              = Inr (timedelta_days \<lparr>year = year t + 1, month = 1, day = 1, hour = 0,
                       minute = 0, second = 0, microsecond = 0\<rparr> t)
          \<and> days_remaining t = Inr (31 - day t + (if time_of_day t = 0 then 1 else 0)))
       \<and> (month t \<noteq> 12 \<longrightarrow>
            next_month t = Inr \<lparr>year = year t, month = month t + 1, day = 1, hour = 0,
                                minute = 0, second = 0, microsecond = 0\<rparr>
          \<and> valid_datetime \<lparr>year = year t, month = month t + 1, day = 1, hour = 0,
                                minute = 0, second = 0, microsecond = 0\<rparr>
          \<and> days_remaining t
              = Inr (timedelta_days \<lparr>year = year t, month = month t + 1, day = 1, hour = 0,
                       minute = 0, second = 0, microsecond = 0\<rparr> t)
          \<and> days_remaining t
              = Inr (days_in_month (year t) (month t) - day t
                     + (if time_of_day t = 0 then 1 else 0)))"
proof (intro conjI impI)
  assume h: "month t = 12 \<and> year t < 9999"
  then have nm: "next_month t = Inr \<lparr>year = year t + 1, month = 1, day = 1, hour = 0,
      minute = 0, second = 0, microsecond = 0\<rparr>"
    using assms by (intro next_month_december) simp_all
  show "next_month t = Inr \<lparr>year = year t + 1, month = 1, day = 1, hour = 0, minute = 0,
                                second = 0, microsecond = 0\<rparr>"
    by (rule nm)
  show "valid_datetime \<lparr>year = year t + 1, month = 1, day = 1, hour = 0, minute = 0,
                                second = 0, microsecond = 0\<rparr>"
    using assms h by (simp add: valid_datetime_def days_in_month_def)
  show "days_remaining t
              = Inr (timedelta_days \<lparr>year = year t + 1, month = 1, day = 1, hour = 0,
                       minute = 0, second = 0, microsecond = 0\<rparr> t)"
    by (simp add: days_remaining_def nm)
  show "days_remaining t = Inr (31 - day t + (if time_of_day t = 0 then 1 else 0))"
    using timedelta_days_next_month [OF assms nm] h
    by (simp add: days_remaining_def nm days_in_month_def)
next
  assume h: "month t \<noteq> 12"
  note nm = next_month_other [OF assms h]
  show "next_month t = Inr \<lparr>year = year t, month = month t + 1, day = 1, hour = 0,
                                minute = 0, second = 0, microsecond = 0\<rparr>"
    by (rule nm)
  have "1 \<le> days_in_month (year t) (month t + 1)"
    using days_in_month_ge [of "year t" "month t + 1"] by simp
  then show "valid_datetime \<lparr>year = year t, month = month t + 1, day = 1, hour = 0,
                                minute = 0, second = 0, microsecond = 0\<rparr>"
    using assms h by (simp add: valid_datetime_def)
  show "days_remaining t
              = Inr (timedelta_days \<lparr>year = year t, month = month t + 1, day = 1, hour = 0,
                       minute = 0, second = 0, microsecond = 0\<rparr> t)"
    by (simp add: days_remaining_def nm)
  show "days_remaining t
              = Inr (days_in_month (year t) (month t) - day t
                     + (if time_of_day t = 0 then 1 else 0))"
    using timedelta_days_next_month [OF assms nm]
    by (simp add: days_remaining_def nm)
qed

text \<open>
  The evening of 31 December 2025 and the morning of 4 November 2025.
\<close>

theorem days_remaining_month_end_witness:
  "valid_datetime (at_time 2025 12 31 18)
   \<and> month (at_time 2025 12 31 18) = 12 \<and> year (at_time 2025 12 31 18) < 9999
   \<and> next_month (at_time 2025 12 31 18)
       = Inr \<lparr>year = 2026, month = 1, day = 1, hour = 0, minute = 0, second = 0,
              microsecond = 0\<rparr>
   \<and> days_remaining (at_time 2025 12 31 18) = Inr 0
   \<and> valid_datetime (at_time 2025 11 4 9) \<and> month (at_time 2025 11 4 9) \<noteq> 12
   \<and> next_month (at_time 2025 11 4 9)
       = Inr \<lparr>year = 2025, month = 12, day = 1, hour = 0, minute = 0, second = 0,
              microsecond = 0\<rparr>
   \<and> days_remaining (at_time 2025 11 4 9) = Inr 26"
proof -
  have f: "month (at_time 2025 12 31 18) = 12" "year (at_time 2025 12 31 18) = 2025"
      "day (at_time 2025 12 31 18) = 31" "time_of_day (at_time 2025 12 31 18) \<noteq> 0"
      "month (at_time 2025 11 4 9) = 11" "year (at_time 2025 11 4 9) = 2025"
      "day (at_time 2025 11 4 9) = 4" "time_of_day (at_time 2025 11 4 9) \<noteq> 0"
    by (simp_all add: at_time_def time_of_day_def)
  have a: "next_month (at_time 2025 12 31 18)
       = Inr \<lparr>year = 2026, month = 1, day = 1, hour = 0, minute = 0, second = 0,
              microsecond = 0\<rparr>
     \<and> days_remaining (at_time 2025 12 31 18) = Inr 0"
    using days_remaining_month_end [OF example_december(1)] by (auto simp: f)
  have b: "next_month (at_time 2025 11 4 9)
       = Inr \<lparr>year = 2025, month = 12, day = 1, hour = 0, minute = 0, second = 0,
              microsecond = 0\<rparr>
     \<and> days_remaining (at_time 2025 11 4 9) = Inr 26"
    using days_remaining_month_end [OF example_december(2)] by (auto simp: f days_in_month_def)
  show ?thesis
    using a b by (simp add: f example_december)
qed

text \<open>
  C6 as stated fails in December 9999, the last year a \<^verbatim>\<open>datetime\<close> holds: 1 January
  of year 10000 cannot be constructed and the computation ends in \<^verbatim>\<open>ValueError\<close>.
\<close>

theorem days_remaining_december_9999:
  "valid_datetime (at_time 9999 12 31 18) \<and> month (at_time 9999 12 31 18) = 12
   \<and> next_month (at_time 9999 12 31 18) = Inl ValueError
   \<and> days_remaining (at_time 9999 12 31 18) = Inl ValueError"
proof -
  have nm: "next_month (at_time 9999 12 31 18) = Inl ValueError"
    by (rule next_month_december_9999) (simp_all add: at_time_def)
  show ?thesis
    by (simp add: example_december nm days_remaining_def) (simp add: at_time_def)
qed

text \<open>
  C7, as amended. After \<^verbatim>\<open>check_quota\<close> and after \<^verbatim>\<open>get_quota_status\<close> the file holds
  what the load they start with leaves in it, and nothing else is written. When a state
  is stored and its month is the month of the clock, the file is unchanged.
\<close>

theorem check_and_status_frame:
  "quota_file (snd (check_quota k c w)) = quota_file (snd (load_quota w))
   \<and> quota_file (snd (get_quota_status w)) = quota_file (snd (load_quota w))
   \<and> (quota_file w = Some q \<and> current_month q = strftime_ym (clock w 0) \<longrightarrow>
        quota_file (snd (check_quota k c w)) = quota_file w
        \<and> quota_file (snd (get_quota_status w)) = quota_file w)"
proof (intro conjI impI)
  show a: "quota_file (snd (check_quota k c w)) = quota_file (snd (load_quota w))"
    by (simp add: check_quota_eq)
  show b: "quota_file (snd (get_quota_status w)) = quota_file (snd (load_quota w))"
    by (rule get_quota_status_file)
  assume h: "quota_file w = Some q \<and> current_month q = strftime_ym (clock w 0)"
  then have "load_quota w = (q, w\<lparr>clock := \<lambda>n. clock w (Suc n)\<rparr>)"
    by (intro load_quota_same_month) simp_all
  then have l: "quota_file (snd (load_quota w)) = quota_file w"
    by simp
  show "quota_file (snd (check_quota k c w)) = quota_file w"
    by (simp only: a l)
  show "quota_file (snd (get_quota_status w)) = quota_file w"
    by (simp only: b l)
qed

text \<open>
  A check and a status in the month of the stored state.
\<close>

theorem check_and_status_frame_witness:
  "quota_file (world_at (Some example_quota) (at_time 2025 2 10 9)) = Some example_quota
   \<and> current_month example_quota
       = strftime_ym (clock (world_at (Some example_quota) (at_time 2025 2 10 9)) 0)
   \<and> quota_file (snd (check_quota ''ndvi'' 30 (world_at (Some example_quota) (at_time 2025 2 10 9))))
       = Some example_quota
   \<and> quota_file (snd (get_quota_status (world_at (Some example_quota) (at_time 2025 2 10 9))))
       = Some example_quota"
proof -
  have f: "quota_file (world_at (Some example_quota) (at_time 2025 2 10 9)) = Some example_quota"
    and c: "clock (world_at (Some example_quota) (at_time 2025 2 10 9)) 0 = at_time 2025 2 10 9"
    by (simp_all add: world_at_def)
  have cm: "current_month example_quota = ''2025-02''"
    by (simp add: example_quota_def)
  show ?thesis
    using check_and_status_frame [of "''ndvi''" 30
        "world_at (Some example_quota) (at_time 2025 2 10 9)" example_quota]
    by (simp add: f c cm example_times_valid load_quota_example)
qed

text \<open>
  C7 as stated fails where no file exists and where the stored month is stale: the load
  inside \<^verbatim>\<open>check_quota\<close> and \<^verbatim>\<open>get_quota_status\<close> creates the default document, or writes
  the reset one.
\<close>

theorem check_and_status_write:
  "quota_file (world_at None (at_time 2025 2 10 9)) = None
   \<and> quota_file (snd (check_quota ''general'' 50 (world_at None (at_time 2025 2 10 9))))
       = Some \<lparr>monthly_limit_pu = 10000, monthly_limit_requests = 10000,
           current_month = ''2025-02'', processing_units_used = 0, requests_used = 0,
           last_updated = ''2025-02-10T09:30:00'', daily_budget_pu = 300,
           daily_budget_requests = 300, collections_today = 0, last_collection_date = None\<rparr>
   \<and> quota_file (snd (get_quota_status (world_at None (at_time 2025 2 10 9))))
       \<noteq> quota_file (world_at None (at_time 2025 2 10 9))
   \<and> quota_file (world_at (Some example_quota) (at_time 2025 3 3 9)) = Some example_quota
   \<and> quota_file (snd (check_quota ''general'' 50
        (world_at (Some example_quota) (at_time 2025 3 3 9))))
       = Some (example_quota\<lparr>current_month := ''2025-03'', processing_units_used := 0,
           requests_used := 0, collections_today := 0, last_updated := ''2025-03-03T09:30:00''\<rparr>)
   \<and> quota_file (snd (get_quota_status (world_at (Some example_quota) (at_time 2025 3 3 9))))
       \<noteq> quota_file (world_at (Some example_quota) (at_time 2025 3 3 9))"
proof -
  have w: "\<And>f t. quota_file (world_at f t) = f" "\<And>f t n. clock (world_at f t) n = t"
    by (simp_all add: world_at_def)
  have iso: "isoformat (at_time 2025 2 10 9) = ''2025-02-10T09:30:00''"
    by (simp add: at_time_def isoformat_def strftime_ymd_def pad4_def pad2_def digit_def)
  have cm: "current_month example_quota = ''2025-02''" "processing_units_used example_quota = 80"
    by (simp_all add: example_quota_def)
  have a: "load_quota (world_at None (at_time 2025 2 10 9)) = 
      (\<lparr>monthly_limit_pu = 10000, monthly_limit_requests = 10000,
           current_month = ''2025-02'', processing_units_used = 0, requests_used = 0,
           last_updated = ''2025-02-10T09:30:00'', daily_budget_pu = 300,
           daily_budget_requests = 300, collections_today = 0, last_collection_date = None\<rparr>,
       \<lparr>quota_file = Some \<lparr>monthly_limit_pu = 10000, monthly_limit_requests = 10000,
           current_month = ''2025-02'', processing_units_used = 0, requests_used = 0,
           last_updated = ''2025-02-10T09:30:00'', daily_budget_pu = 300,
           daily_budget_requests = 300, collections_today = 0, last_collection_date = None\<rparr>,
        clock = \<lambda>n. at_time 2025 2 10 9\<rparr>)"
    by (simp add: load_quota_absent w iso example_times_valid)
  have b: "load_quota (world_at (Some example_quota) (at_time 2025 3 3 9)) =
      (example_quota\<lparr>current_month := ''2025-03'', processing_units_used := 0,
           requests_used := 0, collections_today := 0, last_updated := ''2025-03-03T09:30:00''\<rparr>,
       \<lparr>quota_file = Some (example_quota\<lparr>current_month := ''2025-03'',
           processing_units_used := 0,
           requests_used := 0, collections_today := 0, last_updated := ''2025-03-03T09:30:00''\<rparr>),
        clock = \<lambda>n. at_time 2025 3 3 9\<rparr>)"
    by (simp add: load_quota_stale [where q = example_quota] w cm example_march)
  have ne: "example_quota\<lparr>current_month := ''2025-03'', processing_units_used := 0,
           requests_used := 0, collections_today := 0, last_updated := ''2025-03-03T09:30:00''\<rparr>
         \<noteq> example_quota"
  proof
    assume "example_quota\<lparr>current_month := ''2025-03'', processing_units_used := 0,
           requests_used := 0, collections_today := 0, last_updated := ''2025-03-03T09:30:00''\<rparr>
         = example_quota"
    then have "processing_units_used (example_quota\<lparr>current_month := ''2025-03'',
           processing_units_used := 0,
           requests_used := 0, collections_today := 0, last_updated := ''2025-03-03T09:30:00''\<rparr>)
         = processing_units_used example_quota"
      by (rule arg_cong)
    then show False by (simp add: cm)
  qed
  show ?thesis
    by (simp add: check_quota_eq get_quota_status_file a b w ne)
qed

end
